theory Spec2Isabelle
  imports Complex_Main
begin

section \<open>Vectors\<close>

text \<open>
  \<^verbatim>\<open>mathutils.Vector\<close> with three components. The spec's data model (section 3) calls a
  point "a 3-component real-valued vector", and the model computes with real numbers.
  It follows the program wherever the program's float operations are exact, as they are
  on the inputs evaluated below (small integers and powers of two). Rounding is not
  modelled: what the program's floats do to a value, or to the test of line 33 on
  nearly collinear points, is outside this development, and the lemmas on the
  circumcenter's position say "in exact arithmetic".
\<close>

datatype vec3 = Vector (vx: real) (vy: real) (vz: real)

datatype py_error =
  NameError | ZeroDivisionError | ValueError | TypeError | UnboundLocalError | AttributeError

type_synonym 'a result = "py_error + 'a"

definition vadd :: "vec3 \<Rightarrow> vec3 \<Rightarrow> vec3" where
  "vadd p q = Vector (vx p + vx q) (vy p + vy q) (vz p + vz q)"

definition vsub :: "vec3 \<Rightarrow> vec3 \<Rightarrow> vec3" where
  "vsub p q = Vector (vx p - vx q) (vy p - vy q) (vz p - vz q)"

definition vneg :: "vec3 \<Rightarrow> vec3" where
  "vneg p = Vector (- vx p) (- vy p) (- vz p)"

definition smul :: "real \<Rightarrow> vec3 \<Rightarrow> vec3" where
  "smul k p = Vector (k * vx p) (k * vy p) (k * vz p)"

text \<open>
  \<^verbatim>\<open>Vector / scalar\<close> is library code: mathutils narrows the scalar to a C float and
  raises ZeroDivisionError when the narrowed value is zero. Rounding to nearest, a
  number narrows to zero exactly when its magnitude is at most \<open>2 ^ -150\<close>, half the
  least positive float. This is the one float effect in the model: it decides whether
  lines 39 to 42 are reached.
\<close>

definition narrows_to_zero :: "real \<Rightarrow> bool" where
  "narrows_to_zero k \<longleftrightarrow> \<bar>k\<bar> \<le> 1 / 2 ^ 150"

definition vdiv :: "vec3 \<Rightarrow> real \<Rightarrow> vec3 result" where
  "vdiv p k = (if narrows_to_zero k then Inl ZeroDivisionError
               else Inr (Vector (vx p / k) (vy p / k) (vz p / k)))"

definition dot :: "vec3 \<Rightarrow> vec3 \<Rightarrow> real" where
  "dot p q = vx p * vx q + vy p * vy q + vz p * vz q"

definition length_squared :: "vec3 \<Rightarrow> real" where
  "length_squared p = dot p p"

definition vlength :: "vec3 \<Rightarrow> real" where
  "vlength p = sqrt (length_squared p)"

text \<open>
  \<^verbatim>\<open>Vector.normalize()\<close>: scales to unit length; a vector whose components are all
  zero is left as it is.
\<close>

definition normalize :: "vec3 \<Rightarrow> vec3" where
  "normalize p = (if length_squared p = 0 then p else smul (1 / vlength p) p)"

text \<open>Geometric vocabulary of the specification (not part of the program).\<close>

definition cross :: "vec3 \<Rightarrow> vec3 \<Rightarrow> vec3" where
  "cross p q = Vector (vy p * vz q - vz p * vy q)
                      (vz p * vx q - vx p * vz q)
                      (vx p * vy q - vy p * vx q)"

definition collinear3 :: "vec3 \<Rightarrow> vec3 \<Rightarrow> vec3 \<Rightarrow> bool" where
  "collinear3 p1 p2 p3 \<longleftrightarrow> cross (vsub p2 p1) (vsub p3 p1) = Vector 0 0 0"

definition coplanar4 :: "vec3 \<Rightarrow> vec3 \<Rightarrow> vec3 \<Rightarrow> vec3 \<Rightarrow> bool" where
  "coplanar4 A B C D \<longleftrightarrow> dot (vsub B A) (cross (vsub C A) (vsub D A)) = 0"

definition distance :: "vec3 \<Rightarrow> vec3 \<Rightarrow> real" where
  "distance c p = vlength (vsub c p)"

section \<open>calculate\_circumcenter\_3d\<close>

datatype level = INFO | WARNING | ERROR

text \<open>
  Line 34 calls the bare name \<^verbatim>\<open>report\<close>. The module never binds that name (it
  imports bpy, bmesh, mathutils, Vector, Matrix, np and sss, and defines no function
  called report; the operators' method is \<^verbatim>\<open>self.report\<close>), and it is no builtin, so
  evaluating the call raises NameError.
\<close>

definition report :: "level \<Rightarrow> string \<Rightarrow> unit result" where
  "report lvl msg = Inl NameError"

definition barycentric_to_world ::
  "vec3 \<Rightarrow> vec3 \<Rightarrow> vec3 \<Rightarrow> real \<Rightarrow> real \<Rightarrow> real \<Rightarrow> vec3 result" where
  "barycentric_to_world p1 p2 p3 u v w =
     vdiv (vadd (vadd (smul u p1) (smul v p2)) (smul w p3)) (u + v + w)"

text \<open>
  The result is \<open>Inl e\<close> when exception \<open>e\<close> leaves the function, \<open>Inr None\<close> when it
  returns None and \<open>Inr (Some c)\<close> when it returns the vector \<open>c\<close>.
\<close>

definition calculate_circumcenter_3d :: "vec3 \<Rightarrow> vec3 \<Rightarrow> vec3 \<Rightarrow> vec3 option result" where
  "calculate_circumcenter_3d p1 p2 p3 =
     (let a = vsub p3 p2;
          b = vsub p1 p3;
          c = vsub p2 p1;
          u = length_squared a * dot b c;
          v = length_squared b * dot c a;
          w = length_squared c * dot b a
      in if u + v + w = 0 then
           (case report WARNING ''The 3 points are colinear. Using average instead!'' of
              Inl e \<Rightarrow> Inl e
            | Inr _ \<Rightarrow>
                (case vdiv (vadd (vadd p1 p2) p3) 3 of
                   Inl e \<Rightarrow> Inl e
                 | Inr m \<Rightarrow> Inr (Some m)))
         else
           (case barycentric_to_world p1 p2 p3 u v w of
              Inl ZeroDivisionError \<Rightarrow> Inr None
            | Inl ValueError \<Rightarrow> Inr None
            | Inl e \<Rightarrow> Inl e
            | Inr center \<Rightarrow> Inr (Some center)))"

text \<open>
  The weights and the barycentric combination as the specification writes them
  (section 4.1), to be compared with what the function computes.
\<close>

definition weight_u :: "vec3 \<Rightarrow> vec3 \<Rightarrow> vec3 \<Rightarrow> real" where
  "weight_u p1 p2 p3 = length_squared (vsub p3 p2) * dot (vsub p1 p3) (vsub p2 p1)"

definition weight_v :: "vec3 \<Rightarrow> vec3 \<Rightarrow> vec3 \<Rightarrow> real" where
  "weight_v p1 p2 p3 = length_squared (vsub p1 p3) * dot (vsub p2 p1) (vsub p3 p2)"

definition weight_w :: "vec3 \<Rightarrow> vec3 \<Rightarrow> vec3 \<Rightarrow> real" where
  "weight_w p1 p2 p3 = length_squared (vsub p2 p1) * dot (vsub p1 p3) (vsub p3 p2)"

definition spec_circumcenter :: "vec3 \<Rightarrow> vec3 \<Rightarrow> vec3 \<Rightarrow> vec3" where
  "spec_circumcenter p1 p2 p3 =
     (let u = weight_u p1 p2 p3; v = weight_v p1 p2 p3; w = weight_w p1 p2 p3
      in Vector ((u * vx p1 + v * vx p2 + w * vx p3) / (u + v + w))
                ((u * vy p1 + v * vy p2 + w * vy p3) / (u + v + w))
                ((u * vz p1 + v * vz p2 + w * vz p3) / (u + v + w)))"

section \<open>calculate\_circumcenter\_4d\<close>

text \<open>
  \<^verbatim>\<open>numpy.linalg.solve\<close> is library code. It is modelled by its contract over the reals:
  LinAlgError (here \<open>None\<close>) when the matrix is singular, otherwise the solution of
  \<open>M x = RHS\<close>, written with Cramer's rule; lemma \<open>linalg_solve_unique\<close> below shows
  that any exact solver returns this vector. A matrix is the triple of its rows.
\<close>

type_synonym matrix3 = "vec3 \<times> vec3 \<times> vec3"

definition det3 :: "vec3 \<Rightarrow> vec3 \<Rightarrow> vec3 \<Rightarrow> real" where
  "det3 r1 r2 r3 =
     vx r1 * (vy r2 * vz r3 - vz r2 * vy r3)
     - vy r1 * (vx r2 * vz r3 - vz r2 * vx r3)
     + vz r1 * (vx r2 * vy r3 - vy r2 * vx r3)"

definition linalg_solve :: "matrix3 \<Rightarrow> vec3 \<Rightarrow> vec3 option" where
  "linalg_solve M b =
     (case M of (r1, r2, r3) \<Rightarrow>
        let d = det3 r1 r2 r3
        in if d = 0 then None
           else Some (Vector
             (det3 (Vector (vx b) (vy r1) (vz r1)) (Vector (vy b) (vy r2) (vz r2))
                   (Vector (vz b) (vy r3) (vz r3)) / d)
             (det3 (Vector (vx r1) (vx b) (vz r1)) (Vector (vx r2) (vy b) (vz r2))
                   (Vector (vx r3) (vz b) (vz r3)) / d)
             (det3 (Vector (vx r1) (vy r1) (vx b)) (Vector (vx r2) (vy r2) (vy b))
                   (Vector (vx r3) (vy r3) (vz b)) / d)))"

definition calculate_circumcenter_4d :: "vec3 \<Rightarrow> vec3 \<Rightarrow> vec3 \<Rightarrow> vec3 \<Rightarrow> vec3 option" where
  "calculate_circumcenter_4d A B C D =
     (let M = (Vector (2 * (vx B - vx A)) (2 * (vy B - vy A)) (2 * (vz B - vz A)),
               Vector (2 * (vx C - vx B)) (2 * (vy C - vy B)) (2 * (vz C - vz B)),
               Vector (2 * (vx D - vx C)) (2 * (vy D - vy C)) (2 * (vz D - vz C)));
          RHS = Vector
            ((vx B)\<^sup>2 + (vy B)\<^sup>2 + (vz B)\<^sup>2 - (vx A)\<^sup>2 - (vy A)\<^sup>2 - (vz A)\<^sup>2)
            ((vx C)\<^sup>2 + (vy C)\<^sup>2 + (vz C)\<^sup>2 - (vx B)\<^sup>2 - (vy B)\<^sup>2 - (vz B)\<^sup>2)
            ((vx D)\<^sup>2 + (vy D)\<^sup>2 + (vz D)\<^sup>2 - (vx C)\<^sup>2 - (vy C)\<^sup>2 - (vz C)\<^sup>2)
      in case linalg_solve M RHS of
           None \<Rightarrow> None
         | Some center \<Rightarrow> Some center)"

section \<open>The host's context\<close>

text \<open>
  What the two operators read from \<^verbatim>\<open>context\<close>: the active object with its mode, its
  data and its world matrix, the selections, and the 3D cursor. The type of an object
  is the type of its data. A world matrix is kept as its three rows and its translation
  column: \<^verbatim>\<open>matrix @ vector\<close> extends the vector by 1 and drops the fourth component.
  The rotation type \<open>'r\<close> is left open, since rotations are values of mathutils.
\<close>

datatype obj_mode = OBJECT | EDIT | POSE | OTHER_MODE

datatype obj_type = MESH | ARMATURE | OTHER_TYPE

record vert =
  select :: bool
  co :: vec3

datatype obj_data = Mesh "vert list" | Armature | Other_data

record matrix4 =
  rows :: matrix3
  translation :: vec3

record active_object =
  mode :: obj_mode
  data :: obj_data
  matrix_world :: matrix4

record 'r scene_object =
  location :: vec3
  rotation_euler :: 'r

record 'r bpy_context =
  object :: "active_object option"
  selected_objects :: "'r scene_object list"
  selected_pose_bones :: "vec3 list"
  selected_bones :: "vec3 list"
  cursor_location :: vec3

definition obj_type_of :: "active_object \<Rightarrow> obj_type" where
  "obj_type_of obj = (case data obj of Mesh _ \<Rightarrow> MESH | Armature \<Rightarrow> ARMATURE | Other_data \<Rightarrow> OTHER_TYPE)"

definition matmul :: "matrix4 \<Rightarrow> vec3 \<Rightarrow> vec3" where
  "matmul m p =
     (case rows m of (r1, r2, r3) \<Rightarrow>
        Vector (dot r1 p + vx (translation m))
               (dot r2 p + vy (translation m))
               (dot r3 p + vz (translation m)))"

text \<open>
  \<^verbatim>\<open>bmesh.from_edit_mesh\<close> is library code: it takes Mesh data and raises TypeError
  for data of any other type.
\<close>

definition from_edit_mesh :: "obj_data \<Rightarrow> vert list result" where
  "from_edit_mesh d = (case d of Mesh verts \<Rightarrow> Inr verts | _ \<Rightarrow> Inl TypeError)"

datatype status = FINISHED | CANCELLED

datatype message = Text string | Distance_to_point nat real

type_synonym report_entry = "level \<times> message"

section \<open>MoveToCircumcenterOperator\<close>

definition poll :: "'r bpy_context \<Rightarrow> bool result" where
  "poll ctx =
     (case object ctx of
        None \<Rightarrow> Inr False
      | Some obj \<Rightarrow>
          (case (if mode obj = EDIT then
                   (case from_edit_mesh (data obj) of
                      Inl e \<Rightarrow> Inl e
                    | Inr verts \<Rightarrow>
                        (let selected_verts = filter select verts
                         in Inr (length selected_verts = 4 \<or> length selected_verts = 3)))
                 else Inr False) of
             Inl e \<Rightarrow> Inl e
           | Inr True \<Rightarrow> Inr True
           | Inr False \<Rightarrow>
               if mode obj = OBJECT
                  \<and> (length (selected_objects ctx) = 4 \<or> length (selected_objects ctx) = 3)
               then Inr True
               else if obj_type_of obj = ARMATURE \<and> mode obj = POSE
                  \<and> (length (selected_pose_bones ctx) = 4
                      \<or> length (selected_pose_bones ctx) = 3)
               then Inr True
               else if obj_type_of obj = ARMATURE \<and> mode obj = EDIT
                  \<and> (length (selected_bones ctx) = 4 \<or> length (selected_bones ctx) = 3)
               then Inr True
               else Inr False))"

text \<open>Lines 129 to 147 of \<^verbatim>\<open>execute\<close>: the points \<^verbatim>\<open>p\<close> of the selection.\<close>

definition gather_points :: "'r bpy_context \<Rightarrow> active_object \<Rightarrow> vec3 list result" where
  "gather_points ctx obj =
     (case (if obj_type_of obj = MESH \<and> mode obj = EDIT then
              (case from_edit_mesh (data obj) of
                 Inl e \<Rightarrow> Inl e
               | Inr verts \<Rightarrow> Inr (map (\<lambda>v. matmul (matrix_world obj) (co v)) (filter select verts)))
            else Inr []) of
        Inl e \<Rightarrow> Inl e
      | Inr p \<Rightarrow>
          (let p = (if mode obj = OBJECT then map location (selected_objects ctx) else p);
               p = (if obj_type_of obj = ARMATURE \<and> mode obj = POSE
                    then map (matmul (matrix_world obj)) (selected_pose_bones ctx) else p);
               p = (if obj_type_of obj = ARMATURE \<and> mode obj = EDIT
                    then map (matmul (matrix_world obj)) (selected_bones ctx) else p)
           in Inr p))"

text \<open>
  Lines 149 to 157: the circumcenter of \<^verbatim>\<open>p\<close> with the warnings reported on the way.
  For any other number of points the name \<^verbatim>\<open>circumcenter\<close> is still unbound when
  line 159 reads it.
\<close>

definition circumcenter_of :: "vec3 list \<Rightarrow> (vec3 option \<times> report_entry list) result" where
  "circumcenter_of p =
     (case p of
        [p0, p1, p2] \<Rightarrow>
          (case calculate_circumcenter_3d p0 p1 p2 of
             Inl e \<Rightarrow> Inl e
           | Inr circumcenter \<Rightarrow> Inr (circumcenter, []))
      | [p0, p1, p2, p3] \<Rightarrow>
          (case calculate_circumcenter_4d p0 p1 p2 p3 of
             Some c \<Rightarrow> Inr (Some c, [])
           | None \<Rightarrow>
               (case calculate_circumcenter_3d p0 p1 p2 of
                  Inl e \<Rightarrow> Inl e
                | Inr None \<Rightarrow> Inr (None, [])
                | Inr (Some c) \<Rightarrow>
                    Inr (Some c,
                      [(WARNING, Text ''The 4 points are coplanar. Using 3D circumcenter instead!'')])))
      | _ \<Rightarrow> Inl UnboundLocalError)"

text \<open>
  \<^verbatim>\<open>MoveToCircumcenterOperator.execute\<close>. An exception leaves the handler before any
  report or write; otherwise the handler returns its status, the context after the
  call and the reports in order.
\<close>

definition execute :: "'r bpy_context \<Rightarrow> (status \<times> 'r bpy_context \<times> report_entry list) result" where
  "execute ctx =
     (case object ctx of
        None \<Rightarrow> Inl AttributeError
      | Some obj \<Rightarrow>
          (case gather_points ctx obj of
             Inl e \<Rightarrow> Inl e
           | Inr p \<Rightarrow>
               (case circumcenter_of p of
                  Inl e \<Rightarrow> Inl e
                | Inr (None, reps) \<Rightarrow>
                    Inr (CANCELLED, ctx,
                      reps @ [(ERROR, Text ''Could not calculate circumcenter. Are the points colinear?'')])
                | Inr (Some circumcenter, reps) \<Rightarrow>
                    Inr (FINISHED, ctx\<lparr>cursor_location := circumcenter\<rparr>,
                      reps @ map (\<lambda>i. (INFO, Distance_to_point i (vlength (vsub circumcenter (p ! i)))))
                                 [0..<length p]))))"

section \<open>LookAtCursorOperator\<close>

datatype axis = AX | AY | AZ

text \<open>Lines 212 to 214: the direction before it is normalised.\<close>

definition direction_vector :: "vec3 \<Rightarrow> vec3 \<Rightarrow> bool \<Rightarrow> vec3" where
  "direction_vector cursor loc reverse =
     (let direction = vsub cursor loc
      in if reverse then vsub loc cursor else direction)"

text \<open>
  \<^verbatim>\<open>Vector.to_track_quat\<close> and \<^verbatim>\<open>Quaternion.to_euler\<close> are library code and are
  parameters \<open>tq\<close> and \<open>te\<close> of the model; \<open>tq\<close> returns \<open>None\<close> where the library
  raises the ValueError that the handler catches. Lines 212 to 223 for one object:
  the normalised direction and the conversion chosen by \<^verbatim>\<open>self.axis\<close>.
\<close>

definition object_rotation ::
  "(vec3 \<Rightarrow> axis \<Rightarrow> axis \<Rightarrow> 'q option) \<Rightarrow> vec3 \<Rightarrow> axis \<Rightarrow> bool \<Rightarrow> 'r scene_object \<Rightarrow> 'q option" where
  "object_rotation tq cursor ax reverse obj =
     (let direction = normalize (direction_vector cursor (location obj) reverse)
      in if ax = AX then tq direction AX AZ
         else if ax = AY then tq direction AY AZ
         else tq direction AZ AY)"

text \<open>
  The loop over the selection: an object is rotated when its conversion succeeds, and
  the first failing conversion reports and returns.
\<close>

fun look_at_objects ::
  "(vec3 \<Rightarrow> axis \<Rightarrow> axis \<Rightarrow> 'q option) \<Rightarrow> ('q \<Rightarrow> 'r) \<Rightarrow> vec3 \<Rightarrow> axis \<Rightarrow> bool
   \<Rightarrow> 'r scene_object list \<Rightarrow> status \<times> 'r scene_object list \<times> report_entry list" where
  "look_at_objects tq te cursor ax reverse [] = (FINISHED, [], [])"
| "look_at_objects tq te cursor ax reverse (obj # rest) =
     (case object_rotation tq cursor ax reverse obj of
        None \<Rightarrow>
          (CANCELLED, obj # rest,
           [(ERROR, Text ''Could not point object to cursor. Are the object and cursor in the same location?'')])
      | Some obj_rot \<Rightarrow>
          (case look_at_objects tq te cursor ax reverse rest of
             (st, rest', reps) \<Rightarrow> (st, obj\<lparr>rotation_euler := te obj_rot\<rparr> # rest', reps)))"

definition look_at_execute ::
  "(vec3 \<Rightarrow> axis \<Rightarrow> axis \<Rightarrow> 'q option) \<Rightarrow> ('q \<Rightarrow> 'r) \<Rightarrow> axis \<Rightarrow> bool
   \<Rightarrow> 'r bpy_context \<Rightarrow> status \<times> 'r bpy_context \<times> report_entry list" where
  "look_at_execute tq te ax reverse ctx =
     (let cursor = cursor_location ctx
      in case look_at_objects tq te cursor ax reverse (selected_objects ctx) of
           (st, objs, reps) \<Rightarrow> (st, ctx\<lparr>selected_objects := objs\<rparr>, reps))"

text \<open>
  Modelled from the spec: \<^verbatim>\<open>to_track_quat\<close> belongs to mathutils, not to this
  repository. Section 4.4 has the conversion fail when the direction has zero length,
  the case the handler's message names ("Are the object and cursor in the same
  location?"). This instance fails there and keeps every other rotation symbolic, as
  the direction with the track and up axes; it is used only to run the handler on
  concrete selections.
\<close>

definition track_quat :: "vec3 \<Rightarrow> axis \<Rightarrow> axis \<Rightarrow> (vec3 \<times> axis \<times> axis) option" where
  "track_quat direction track up =
     (if direction = Vector 0 0 0 then None else Some (direction, track, up))"

definition to_euler :: "(vec3 \<times> axis \<times> axis) \<Rightarrow> (vec3 \<times> axis \<times> axis) option" where
  "to_euler q = Some q"

text \<open>
  What the loop writes to an object whose conversion succeeds, and the error it reports
  otherwise.
\<close>

definition rotated ::
  "(vec3 \<Rightarrow> axis \<Rightarrow> axis \<Rightarrow> 'q option) \<Rightarrow> ('q \<Rightarrow> 'r) \<Rightarrow> vec3 \<Rightarrow> axis \<Rightarrow> bool
   \<Rightarrow> 'r scene_object \<Rightarrow> 'r scene_object" where
  "rotated tq te cursor ax reverse obj =
     (case object_rotation tq cursor ax reverse obj of
        None \<Rightarrow> obj
      | Some obj_rot \<Rightarrow> obj\<lparr>rotation_euler := te obj_rot\<rparr>)"

definition look_at_error :: report_entry where
  "look_at_error =
     (ERROR, Text ''Could not point object to cursor. Are the object and cursor in the same location?'')"

definition identity_matrix :: matrix4 where
  "identity_matrix =
     \<lparr>rows = (Vector 1 0 0, Vector 0 1 0, Vector 0 0 1), translation = Vector 0 0 0\<rparr>"

section \<open>Vector algebra\<close>

lemma dot_commute: "dot p q = dot q p"
  by (simp add: dot_def mult.commute)

lemma dot_vsub_left: "dot (vsub p q) r = dot p r - dot q r"
  by (simp add: dot_def vsub_def algebra_simps)

lemma dot_vsub_right: "dot r (vsub p q) = dot r p - dot r q"
  by (simp add: dot_def vsub_def algebra_simps)

lemma dot_vadd_left: "dot (vadd p q) r = dot p r + dot q r"
  by (simp add: dot_def vadd_def algebra_simps)

lemma dot_smul_left: "dot (smul k p) r = k * dot p r"
  by (simp add: dot_def smul_def algebra_simps)

lemma lagrange: "dot (cross p q) (cross p q) = dot p p * dot q q - dot p q * dot p q"
  by (simp add: dot_def cross_def algebra_simps)

lemma length_squared_zero: "length_squared p = 0 \<longleftrightarrow> p = Vector 0 0 0"
proof (cases p)
  case (Vector x y z)
  have "x * x + y * y + z * z = 0 \<longleftrightarrow> x = 0 \<and> y = 0 \<and> z = 0"
    by (metis add_nonneg_eq_0_iff zero_le_square mult_eq_0_iff add_nonneg_nonneg)
  with Vector show ?thesis by (simp add: length_squared_def dot_def)
qed

lemma dist_sq_diff:
  "length_squared (vsub c p) - length_squared (vsub c q)
   = length_squared p - length_squared q - 2 * dot c (vsub p q)"
  unfolding length_squared_def dot_vsub_left dot_vsub_right
  by (simp add: dot_commute [of p c] dot_commute [of q c] algebra_simps)

lemma narrows_to_zero_0 [simp]: "narrows_to_zero 0"
  by (simp add: narrows_to_zero_def)

lemma narrows_to_zero_3 [simp]: "\<not> narrows_to_zero 3"
proof -
  have "(1::real) / 2 ^ 150 \<le> 1" by (simp add: divide_le_eq_1)
  then show ?thesis by (simp add: narrows_to_zero_def)
qed

section \<open>The circle through three points\<close>

text \<open>The sum of the weights is minus twice the squared area vector of the triangle.\<close>

lemma weight_sum:
  "weight_u p1 p2 p3 + weight_v p1 p2 p3 + weight_w p1 p2 p3
   = - 2 * length_squared (cross (vsub p2 p1) (vsub p3 p1))"
  unfolding weight_u_def weight_v_def weight_w_def length_squared_def lagrange
    dot_vsub_left dot_vsub_right
  by (simp add: dot_commute [of p2 p1] dot_commute [of p3 p1] dot_commute [of p3 p2] algebra_simps)

lemma weight_sum_zero_iff:
  "weight_u p1 p2 p3 + weight_v p1 p2 p3 + weight_w p1 p2 p3 = 0 \<longleftrightarrow> collinear3 p1 p2 p3"
  by (simp add: weight_sum collinear3_def length_squared_zero)

lemma bisector_12:
  "2 * dot (vadd (vadd (smul (weight_u p1 p2 p3) p1) (smul (weight_v p1 p2 p3) p2))
                 (smul (weight_w p1 p2 p3) p3)) (vsub p2 p1)
   = (weight_u p1 p2 p3 + weight_v p1 p2 p3 + weight_w p1 p2 p3)
     * (length_squared p2 - length_squared p1)"
  unfolding weight_u_def weight_v_def weight_w_def length_squared_def
    dot_vsub_left dot_vsub_right dot_vadd_left dot_smul_left
  by (simp add: dot_commute [of p2 p1] dot_commute [of p3 p1] dot_commute [of p3 p2] algebra_simps)

lemma bisector_23:
  "2 * dot (vadd (vadd (smul (weight_u p1 p2 p3) p1) (smul (weight_v p1 p2 p3) p2))
                 (smul (weight_w p1 p2 p3) p3)) (vsub p3 p2)
   = (weight_u p1 p2 p3 + weight_v p1 p2 p3 + weight_w p1 p2 p3)
     * (length_squared p3 - length_squared p2)"
  unfolding weight_u_def weight_v_def weight_w_def length_squared_def
    dot_vsub_left dot_vsub_right dot_vadd_left dot_smul_left
  by (simp add: dot_commute [of p2 p1] dot_commute [of p3 p1] dot_commute [of p3 p2] algebra_simps)

text \<open>What the function computes, in the vocabulary of the specification.\<close>

lemma circumcenter_3d_eq:
  "calculate_circumcenter_3d p1 p2 p3 =
     (if weight_u p1 p2 p3 + weight_v p1 p2 p3 + weight_w p1 p2 p3 = 0 then Inl NameError
      else if narrows_to_zero (weight_u p1 p2 p3 + weight_v p1 p2 p3 + weight_w p1 p2 p3)
      then Inr None
      else Inr (Some (spec_circumcenter p1 p2 p3)))"
  by (simp add: calculate_circumcenter_3d_def Let_def report_def barycentric_to_world_def
      vdiv_def weight_u_def weight_v_def weight_w_def spec_circumcenter_def vadd_def smul_def)

text \<open>
  Every outcome of the function in the model: the NameError of line 34 where the
  weights sum to zero, which in exact arithmetic is on collinear points; None where
  the sum is not zero but narrows to zero in the division; the barycentric combination
  otherwise.
\<close>

lemma circumcenter_3d_outcome:
  "calculate_circumcenter_3d p1 p2 p3 =
     (if collinear3 p1 p2 p3 then Inl NameError
      else if narrows_to_zero (weight_u p1 p2 p3 + weight_v p1 p2 p3 + weight_w p1 p2 p3)
      then Inr None
      else Inr (Some (spec_circumcenter p1 p2 p3)))"
  by (simp only: circumcenter_3d_eq weight_sum_zero_iff)

lemma dot_spec_circumcenter:
  "dot (spec_circumcenter p1 p2 p3) d =
     dot (vadd (vadd (smul (weight_u p1 p2 p3) p1) (smul (weight_v p1 p2 p3) p2))
               (smul (weight_w p1 p2 p3) p3)) d
     / (weight_u p1 p2 p3 + weight_v p1 p2 p3 + weight_w p1 p2 p3)"
proof -
  have q: "\<And>a b c s. dot (Vector (a / s) (b / s) (c / s)) d = dot (Vector a b c) d / s"
    by (simp add: dot_def add_divide_distrib)
  show ?thesis
    by (simp add: spec_circumcenter_def Let_def q vadd_def smul_def)
qed

lemma equidistant_12:
  assumes s: "weight_u p1 p2 p3 + weight_v p1 p2 p3 + weight_w p1 p2 p3 \<noteq> 0"
  shows "length_squared (vsub (spec_circumcenter p1 p2 p3) p1)
       = length_squared (vsub (spec_circumcenter p1 p2 p3) p2)"
proof -
  let ?s = "weight_u p1 p2 p3 + weight_v p1 p2 p3 + weight_w p1 p2 p3"
  let ?n = "vadd (vadd (smul (weight_u p1 p2 p3) p1) (smul (weight_v p1 p2 p3) p2))
                 (smul (weight_w p1 p2 p3) p3)"
  have "2 * dot (spec_circumcenter p1 p2 p3) (vsub p2 p1) = 2 * dot ?n (vsub p2 p1) / ?s"
    by (simp add: dot_spec_circumcenter)
  also have "\<dots> = length_squared p2 - length_squared p1"
    using s by (simp add: bisector_12)
  finally show ?thesis
    using dist_sq_diff [of "spec_circumcenter p1 p2 p3" p2 p1] by simp
qed

lemma equidistant_23:
  assumes s: "weight_u p1 p2 p3 + weight_v p1 p2 p3 + weight_w p1 p2 p3 \<noteq> 0"
  shows "length_squared (vsub (spec_circumcenter p1 p2 p3) p2)
       = length_squared (vsub (spec_circumcenter p1 p2 p3) p3)"
proof -
  let ?s = "weight_u p1 p2 p3 + weight_v p1 p2 p3 + weight_w p1 p2 p3"
  let ?n = "vadd (vadd (smul (weight_u p1 p2 p3) p1) (smul (weight_v p1 p2 p3) p2))
                 (smul (weight_w p1 p2 p3) p3)"
  have "2 * dot (spec_circumcenter p1 p2 p3) (vsub p3 p2) = 2 * dot ?n (vsub p3 p2) / ?s"
    by (simp add: dot_spec_circumcenter)
  also have "\<dots> = length_squared p3 - length_squared p2"
    using s by (simp add: bisector_23)
  finally show ?thesis
    using dist_sq_diff [of "spec_circumcenter p1 p2 p3" p3 p2] by simp
qed

text \<open>
  In exact arithmetic: for three points that are not collinear and whose weight sum
  does not narrow to zero, the function returns the barycentric combination
  \<open>(u*p1 + v*p2 + w*p3) / (u+v+w)\<close> with the weights of the specification, and that
  point has the same distance to each of the three points.
\<close>

lemma circumcenter_3d_exact:
  assumes "\<not> collinear3 p1 p2 p3"
    and n: "\<not> narrows_to_zero (weight_u p1 p2 p3 + weight_v p1 p2 p3 + weight_w p1 p2 p3)"
  shows "calculate_circumcenter_3d p1 p2 p3 = Inr (Some (spec_circumcenter p1 p2 p3))"
    and "distance (spec_circumcenter p1 p2 p3) p1 = distance (spec_circumcenter p1 p2 p3) p2"
    and "distance (spec_circumcenter p1 p2 p3) p2 = distance (spec_circumcenter p1 p2 p3) p3"
proof -
  from assms have s: "weight_u p1 p2 p3 + weight_v p1 p2 p3 + weight_w p1 p2 p3 \<noteq> 0"
    by (simp add: weight_sum_zero_iff)
  show "calculate_circumcenter_3d p1 p2 p3 = Inr (Some (spec_circumcenter p1 p2 p3))"
    using s n by (simp only: circumcenter_3d_eq if_False)
  show "distance (spec_circumcenter p1 p2 p3) p1 = distance (spec_circumcenter p1 p2 p3) p2"
    by (simp only: distance_def vlength_def equidistant_12 [OF s])
  show "distance (spec_circumcenter p1 p2 p3) p2 = distance (spec_circumcenter p1 p2 p3) p3"
    by (simp only: distance_def vlength_def equidistant_23 [OF s])
qed

text \<open>The example of the specification (section 8); every float operation on it is exact.\<close>

lemma circumcenter_3d_example:
  "calculate_circumcenter_3d (Vector 0 0 0) (Vector 2 0 0) (Vector 0 2 0)
   = Inr (Some (Vector 1 1 0))"
  by (simp add: calculate_circumcenter_3d_def Let_def vsub_def vadd_def smul_def
      length_squared_def dot_def barycentric_to_world_def vdiv_def narrows_to_zero_def)

section \<open>Order of the three points, and collinear points\<close>

lemma weight_swap12:
  "weight_u p2 p1 p3 = weight_v p1 p2 p3"
  "weight_v p2 p1 p3 = weight_u p1 p2 p3"
  "weight_w p2 p1 p3 = weight_w p1 p2 p3"
  unfolding weight_u_def weight_v_def weight_w_def length_squared_def dot_vsub_left dot_vsub_right
  by (simp_all add: dot_commute [of p2 p1] dot_commute [of p3 p1] dot_commute [of p3 p2] algebra_simps)

lemma weight_swap23:
  "weight_u p1 p3 p2 = weight_u p1 p2 p3"
  "weight_v p1 p3 p2 = weight_w p1 p2 p3"
  "weight_w p1 p3 p2 = weight_v p1 p2 p3"
  unfolding weight_u_def weight_v_def weight_w_def length_squared_def dot_vsub_left dot_vsub_right
  by (simp_all add: dot_commute [of p2 p1] dot_commute [of p3 p1] dot_commute [of p3 p2] algebra_simps)

lemma circumcenter_3d_swap12:
  "calculate_circumcenter_3d p2 p1 p3 = calculate_circumcenter_3d p1 p2 p3"
proof -
  have u: "weight_u p2 p1 p3 = weight_v p1 p2 p3"
    and v: "weight_v p2 p1 p3 = weight_u p1 p2 p3"
    and w: "weight_w p2 p1 p3 = weight_w p1 p2 p3"
    by (rule weight_swap12)+
  have "spec_circumcenter p2 p1 p3 = spec_circumcenter p1 p2 p3"
    unfolding spec_circumcenter_def Let_def u v w by (simp add: add.commute)
  then show ?thesis
    unfolding circumcenter_3d_eq u v w by (simp add: add.commute)
qed

lemma circumcenter_3d_swap23:
  "calculate_circumcenter_3d p1 p3 p2 = calculate_circumcenter_3d p1 p2 p3"
proof -
  have u: "weight_u p1 p3 p2 = weight_u p1 p2 p3"
    and v: "weight_v p1 p3 p2 = weight_w p1 p2 p3"
    and w: "weight_w p1 p3 p2 = weight_v p1 p2 p3"
    by (rule weight_swap23)+
  have "spec_circumcenter p1 p3 p2 = spec_circumcenter p1 p2 p3"
    unfolding spec_circumcenter_def Let_def u v w by (simp add: add_ac)
  then show ?thesis
    unfolding circumcenter_3d_eq u v w by (simp add: add_ac)
qed

text \<open>
  In exact arithmetic the outcome does not depend on the order of the three arguments:
  the weights permute with the points and their sum is symmetric. The program's floats
  round the sum differently in different orders.
\<close>

lemma circumcenter_3d_permutation_exact:
  "calculate_circumcenter_3d p2 p1 p3 = calculate_circumcenter_3d p1 p2 p3
   \<and> calculate_circumcenter_3d p1 p3 p2 = calculate_circumcenter_3d p1 p2 p3
   \<and> calculate_circumcenter_3d p3 p2 p1 = calculate_circumcenter_3d p1 p2 p3
   \<and> calculate_circumcenter_3d p2 p3 p1 = calculate_circumcenter_3d p1 p2 p3
   \<and> calculate_circumcenter_3d p3 p1 p2 = calculate_circumcenter_3d p1 p2 p3"
proof -
  have a: "calculate_circumcenter_3d p2 p3 p1 = calculate_circumcenter_3d p1 p2 p3"
    using circumcenter_3d_swap23 [of p2 p3 p1] circumcenter_3d_swap12 [of p1 p2 p3] by simp
  have b: "calculate_circumcenter_3d p3 p1 p2 = calculate_circumcenter_3d p1 p2 p3"
    using circumcenter_3d_swap12 [of p1 p3 p2] circumcenter_3d_swap23 [of p1 p2 p3] by simp
  have c: "calculate_circumcenter_3d p3 p2 p1 = calculate_circumcenter_3d p1 p2 p3"
    using circumcenter_3d_swap12 [of p2 p3 p1] a by simp
  show ?thesis
    using a b c circumcenter_3d_swap12 [of p1 p2 p3] circumcenter_3d_swap23 [of p1 p2 p3] by simp
qed

text \<open>
  C3. The claim has collinear points return their arithmetic mean with a warning. On
  the collinear points (0,0,0), (1,0,0), (2,0,0) the weights sum to zero, line 34 is
  evaluated and its unbound name \<^verbatim>\<open>report\<close> raises NameError: no mean is returned.
\<close>

theorem circumcenter_3d_collinear_raises:
  "collinear3 (Vector 0 0 0) (Vector 1 0 0) (Vector 2 0 0)
   \<and> calculate_circumcenter_3d (Vector 0 0 0) (Vector 1 0 0) (Vector 2 0 0) = Inl NameError"
  by (simp add: collinear3_def cross_def vsub_def calculate_circumcenter_3d_def Let_def
      length_squared_def dot_def report_def)

text \<open>
  C4. The claim has the function never raise. On the collinear points (1,1,1), (2,2,2),
  (3,3,3) the NameError of line 34 leaves the function; it is none of the two
  exceptions that lines 39 to 42 turn into None.
\<close>

theorem circumcenter_3d_not_total:
  "calculate_circumcenter_3d (Vector 1 1 1) (Vector 2 2 2) (Vector 3 3 3) = Inl NameError"
  by (simp add: calculate_circumcenter_3d_def Let_def vsub_def
      length_squared_def dot_def report_def)

section \<open>The sphere through four points\<close>

lemma det_rowops:
  "det3 (smul 2 a) (smul 2 (vsub b a)) (smul 2 (vsub c b)) = 8 * dot a (cross b c)"
  by (simp add: det3_def dot_def cross_def vsub_def smul_def algebra_simps)

lemma cramer_row1:
  "vx r1 * det3 (Vector (vx b) (vy r1) (vz r1)) (Vector (vy b) (vy r2) (vz r2)) (Vector (vz b) (vy r3) (vz r3))
   + vy r1 * det3 (Vector (vx r1) (vx b) (vz r1)) (Vector (vx r2) (vy b) (vz r2)) (Vector (vx r3) (vz b) (vz r3))
   + vz r1 * det3 (Vector (vx r1) (vy r1) (vx b)) (Vector (vx r2) (vy r2) (vy b)) (Vector (vx r3) (vy r3) (vz b))
   = vx b * det3 r1 r2 r3"
  by (simp add: det3_def algebra_simps)

lemma cramer_row2:
  "vx r2 * det3 (Vector (vx b) (vy r1) (vz r1)) (Vector (vy b) (vy r2) (vz r2)) (Vector (vz b) (vy r3) (vz r3))
   + vy r2 * det3 (Vector (vx r1) (vx b) (vz r1)) (Vector (vx r2) (vy b) (vz r2)) (Vector (vx r3) (vz b) (vz r3))
   + vz r2 * det3 (Vector (vx r1) (vy r1) (vx b)) (Vector (vx r2) (vy r2) (vy b)) (Vector (vx r3) (vy r3) (vz b))
   = vy b * det3 r1 r2 r3"
  by (simp add: det3_def algebra_simps)

lemma cramer_row3:
  "vx r3 * det3 (Vector (vx b) (vy r1) (vz r1)) (Vector (vy b) (vy r2) (vz r2)) (Vector (vz b) (vy r3) (vz r3))
   + vy r3 * det3 (Vector (vx r1) (vx b) (vz r1)) (Vector (vx r2) (vy b) (vz r2)) (Vector (vx r3) (vz b) (vz r3))
   + vz r3 * det3 (Vector (vx r1) (vy r1) (vx b)) (Vector (vx r2) (vy r2) (vy b)) (Vector (vx r3) (vy r3) (vz b))
   = vz b * det3 r1 r2 r3"
  by (simp add: det3_def algebra_simps)

lemma dot_quotients:
  "dot r (Vector (p / d) (q / d) (s / d)) = (vx r * p + vy r * q + vz r * s) / d"
  by (simp add: dot_def add_divide_distrib)

lemma linalg_solve_rows:
  assumes "linalg_solve (r1, r2, r3) b = Some x"
  shows "dot r1 x = vx b" and "dot r2 x = vy b" and "dot r3 x = vz b"
proof -
  from assms have d: "det3 r1 r2 r3 \<noteq> 0"
    by (auto simp: linalg_solve_def Let_def split: if_splits)
  from assms d have x: "x = Vector
      (det3 (Vector (vx b) (vy r1) (vz r1)) (Vector (vy b) (vy r2) (vz r2))
            (Vector (vz b) (vy r3) (vz r3)) / det3 r1 r2 r3)
      (det3 (Vector (vx r1) (vx b) (vz r1)) (Vector (vx r2) (vy b) (vz r2))
            (Vector (vx r3) (vz b) (vz r3)) / det3 r1 r2 r3)
      (det3 (Vector (vx r1) (vy r1) (vx b)) (Vector (vx r2) (vy r2) (vy b))
            (Vector (vx r3) (vy r3) (vz b)) / det3 r1 r2 r3)"
    by (simp add: linalg_solve_def Let_def)
  show "dot r1 x = vx b"
    unfolding x dot_quotients cramer_row1 using d by simp
  show "dot r2 x = vy b"
    unfolding x dot_quotients cramer_row2 using d by simp
  show "dot r3 x = vz b"
    unfolding x dot_quotients cramer_row3 using d by simp
qed

lemma linalg_solve_None: "linalg_solve (r1, r2, r3) b = None \<longleftrightarrow> det3 r1 r2 r3 = 0"
  by (simp add: linalg_solve_def Let_def)

lemma row_smul:
  "Vector (2 * (vx B - vx A)) (2 * (vy B - vy A)) (2 * (vz B - vz A)) = smul 2 (vsub B A)"
  by (simp add: smul_def vsub_def)

lemma rhs_length_squared:
  "(vx B)\<^sup>2 + (vy B)\<^sup>2 + (vz B)\<^sup>2 - (vx A)\<^sup>2 - (vy A)\<^sup>2 - (vz A)\<^sup>2
   = length_squared B - length_squared A"
  by (simp add: length_squared_def dot_def power2_eq_square)

lemma case_option_id: "(case x of None \<Rightarrow> None | Some c \<Rightarrow> Some c) = x"
  by (cases x) simp_all

lemma circumcenter_4d_eq:
  "calculate_circumcenter_4d A B C D =
     linalg_solve (smul 2 (vsub B A), smul 2 (vsub C B), smul 2 (vsub D C))
       (Vector (length_squared B - length_squared A) (length_squared C - length_squared B)
               (length_squared D - length_squared C))"
  by (simp only: calculate_circumcenter_4d_def Let_def row_smul rhs_length_squared case_option_id)

lemma vsub_vsub: "vsub (vsub C A) (vsub B A) = vsub C B"
  by (simp add: vsub_def)

lemma det_M:
  "det3 (smul 2 (vsub B A)) (smul 2 (vsub C B)) (smul 2 (vsub D C))
   = 8 * dot (vsub B A) (cross (vsub C A) (vsub D A))"
  using det_rowops [of "vsub B A" "vsub C A" "vsub D A"]
  by (simp only: vsub_vsub)

lemma circumcenter_4d_None_iff:
  "calculate_circumcenter_4d A B C D = None \<longleftrightarrow> coplanar4 A B C D"
  by (simp add: circumcenter_4d_eq linalg_solve_None det_M coplanar4_def)

lemma bisector_plane:
  assumes "dot (smul 2 (vsub B A)) c = length_squared B - length_squared A"
  shows "length_squared (vsub c A) = length_squared (vsub c B)"
  using assms dist_sq_diff [of c B A]
  by (simp add: dot_smul_left dot_commute [of c])

text \<open>
  In exact arithmetic, and with a solver that is exact: for four points that are not
  coplanar the function returns a point that has the same distance to each of them.
\<close>

lemma circumcenter_4d_exact:
  assumes "\<not> coplanar4 A B C D"
  shows "\<exists>c. calculate_circumcenter_4d A B C D = Some c
           \<and> distance c A = distance c B \<and> distance c B = distance c C
           \<and> distance c C = distance c D"
proof -
  from assms obtain c where c: "calculate_circumcenter_4d A B C D = Some c"
    using circumcenter_4d_None_iff [of A B C D] by (cases "calculate_circumcenter_4d A B C D") auto
  note rows = linalg_solve_rows [OF c [unfolded circumcenter_4d_eq]]
  have "length_squared (vsub c A) = length_squared (vsub c B)"
    using rows(1) by (simp add: bisector_plane)
  moreover have "length_squared (vsub c B) = length_squared (vsub c C)"
    using rows(2) by (simp add: bisector_plane)
  moreover have "length_squared (vsub c C) = length_squared (vsub c D)"
    using rows(3) by (simp add: bisector_plane)
  ultimately show ?thesis
    using c by (simp add: distance_def vlength_def)
qed

text \<open>The example of the specification (section 8); every float operation on it is exact.\<close>

lemma circumcenter_4d_example:
  "calculate_circumcenter_4d (Vector 0 0 0) (Vector 2 0 0) (Vector 0 2 0) (Vector 0 0 2)
   = Some (Vector 1 1 1)"
  by (simp add: calculate_circumcenter_4d_def linalg_solve_def det3_def Let_def)

lemma linalg_solve_unique:
  assumes d: "det3 r1 r2 r3 \<noteq> 0"
    and y: "dot r1 y = vx b" "dot r2 y = vy b" "dot r3 y = vz b"
  shows "linalg_solve (r1, r2, r3) b = Some y"
proof -
  have 1: "det3 (Vector (dot r1 y) (vy r1) (vz r1)) (Vector (dot r2 y) (vy r2) (vz r2))
                (Vector (dot r3 y) (vy r3) (vz r3)) = vx y * det3 r1 r2 r3"
    by (simp add: det3_def dot_def algebra_simps)
  have 2: "det3 (Vector (vx r1) (dot r1 y) (vz r1)) (Vector (vx r2) (dot r2 y) (vz r2))
                (Vector (vx r3) (dot r3 y) (vz r3)) = vy y * det3 r1 r2 r3"
    by (simp add: det3_def dot_def algebra_simps)
  have 3: "det3 (Vector (vx r1) (vy r1) (dot r1 y)) (Vector (vx r2) (vy r2) (dot r2 y))
                (Vector (vx r3) (vy r3) (dot r3 y)) = vz y * det3 r1 r2 r3"
    by (simp add: det3_def dot_def algebra_simps)
  show ?thesis
    using d by (simp add: linalg_solve_def Let_def y [symmetric] 1 2 3)
qed

section \<open>Enablement of the circumcenter operation\<close>

lemma poll_mesh_edit:
  assumes "object ctx = Some obj" "mode obj = EDIT" "data obj = Mesh verts"
  shows "poll ctx = Inr (length (filter select verts) = 3 \<or> length (filter select verts) = 4)"
  using assms by (auto simp: poll_def from_edit_mesh_def obj_type_of_def Let_def split: bool.splits)

lemma poll_object_mode:
  assumes "object ctx = Some obj" "mode obj = OBJECT"
  shows "poll ctx = Inr (length (selected_objects ctx) = 3 \<or> length (selected_objects ctx) = 4)"
  using assms by (auto simp: poll_def)

lemma poll_pose:
  assumes "object ctx = Some obj" "mode obj = POSE" "data obj = Armature"
  shows "poll ctx = Inr (length (selected_pose_bones ctx) = 3 \<or> length (selected_pose_bones ctx) = 4)"
  using assms by (auto simp: poll_def obj_type_of_def)

lemma poll_armature_edit:
  assumes "object ctx = Some obj" "mode obj = EDIT" "data obj = Armature"
  shows "poll ctx = Inl TypeError"
  using assms by (simp add: poll_def from_edit_mesh_def)

text \<open>
  C8. The claim has \<^verbatim>\<open>poll\<close> return true for exactly 3 or 4 selected entities in each
  of the four contexts. It does so for mesh vertices, objects and pose bones (the three
  lemmas above). For an armature in edit mode with 3 selected bones, line 98 hands the
  armature's data to \<^verbatim>\<open>bmesh.from_edit_mesh\<close>, TypeError is raised, and the bone count of
  lines 117 to 120 is never read. \<^verbatim>\<open>execute\<close> guards the same call with
  \<^verbatim>\<open>obj.type == 'MESH'\<close> (line 131); \<^verbatim>\<open>poll\<close> does not.
\<close>

theorem poll_armature_edit_raises:
  "length (selected_bones
      \<lparr>object = Some \<lparr>mode = EDIT, data = Armature, matrix_world = identity_matrix\<rparr>,
       selected_objects = ([] :: unit scene_object list), selected_pose_bones = [],
       selected_bones = [Vector 0 0 0, Vector 1 0 0, Vector 0 1 0],
       cursor_location = Vector 0 0 0\<rparr>) = 3
   \<and> poll
      \<lparr>object = Some \<lparr>mode = EDIT, data = Armature, matrix_world = identity_matrix\<rparr>,
       selected_objects = ([] :: unit scene_object list), selected_pose_bones = [],
       selected_bones = [Vector 0 0 0, Vector 1 0 0, Vector 0 1 0],
       cursor_location = Vector 0 0 0\<rparr> = Inl TypeError"
  by (simp add: poll_def from_edit_mesh_def)

section \<open>The circumcenter operation\<close>

text \<open>
  In exact arithmetic, what lines 152 to 157 do with a coplanar quadruple: the
  outcome of the three-point function on the first three points, with the warning
  once that outcome is a point.
\<close>

lemma circumcenter_of_coplanar:
  assumes "coplanar4 A B C D"
  shows "circumcenter_of [A, B, C, D] =
     (if collinear3 A B C then Inl NameError
      else if narrows_to_zero (weight_u A B C + weight_v A B C + weight_w A B C)
      then Inr (None, [])
      else Inr (Some (spec_circumcenter A B C),
             [(WARNING, Text ''The 4 points are coplanar. Using 3D circumcenter instead!'')]))"
proof -
  from assms have "calculate_circumcenter_4d A B C D = None"
    by (simp add: circumcenter_4d_None_iff)
  then show ?thesis
    by (simp add: circumcenter_of_def circumcenter_3d_outcome)
qed

text \<open>
  C5. The claim has every coplanar quadruple fall back to the circle through its first
  three points, with a warning. For (0,0,0), (1,0,0), (2,0,0), (0,1,0), selected as four
  objects, \<^verbatim>\<open>calculate_circumcenter_4d\<close> returns None as claimed, but the first three
  points are collinear, the fallback call raises the NameError of line 34, and the
  handler neither warns nor moves the cursor. Lemma \<open>circumcenter_of_coplanar\<close> is
  the general picture: the claimed fallback happens when the first three points are not
  collinear and their weight sum does not narrow to zero.
\<close>

theorem coplanar_fallback_raises:
  "coplanar4 (Vector 0 0 0) (Vector 1 0 0) (Vector 2 0 0) (Vector 0 1 0)
   \<and> calculate_circumcenter_4d (Vector 0 0 0) (Vector 1 0 0) (Vector 2 0 0) (Vector 0 1 0) = None
   \<and> execute
      \<lparr>object = Some \<lparr>mode = OBJECT, data = Mesh [], matrix_world = identity_matrix\<rparr>,
       selected_objects =
         [\<lparr>location = Vector 0 0 0, rotation_euler = ()\<rparr>,
          \<lparr>location = Vector 1 0 0, rotation_euler = ()\<rparr>,
          \<lparr>location = Vector 2 0 0, rotation_euler = ()\<rparr>,
          \<lparr>location = Vector 0 1 0, rotation_euler = ()\<rparr>],
       selected_pose_bones = [], selected_bones = [],
       cursor_location = Vector 5 5 5\<rparr> = Inl NameError"
proof -
  have cp: "coplanar4 (Vector 0 0 0) (Vector 1 0 0) (Vector 2 0 0) (Vector 0 1 0)"
    by (simp add: coplanar4_def dot_def cross_def vsub_def)
  have c4: "calculate_circumcenter_4d (Vector 0 0 0) (Vector 1 0 0) (Vector 2 0 0) (Vector 0 1 0) = None"
    by (simp add: calculate_circumcenter_4d_def linalg_solve_def det3_def Let_def)
  have c3: "calculate_circumcenter_3d (Vector 0 0 0) (Vector 1 0 0) (Vector 2 0 0) = Inl NameError"
    by (simp add: calculate_circumcenter_3d_def Let_def vsub_def length_squared_def dot_def report_def)
  show ?thesis
    by (simp add: cp c4 c3 execute_def gather_points_def obj_type_of_def from_edit_mesh_def
        circumcenter_of_def)
qed



section \<open>The orient operation\<close>

lemma normalize_vneg: "normalize (vneg p) = vneg (normalize p)"
  by (simp add: normalize_def vneg_def smul_def length_squared_def vlength_def dot_def)

lemma vsub_swap: "vsub q p = vneg (vsub p q)"
  by (simp add: vsub_def vneg_def)

text \<open>
  C9. Without \<^verbatim>\<open>reverse\<close> the direction is cursor minus object location, with it object
  location minus cursor, which is its negation; and the operation hands the conversion
  the normalised cursor-minus-location direction without \<^verbatim>\<open>reverse\<close> and the negation of
  that same vector with it, the axes \<^verbatim>\<open>track\<close> and \<^verbatim>\<open>up\<close> being those of \<^verbatim>\<open>self.axis\<close>
  in both cases.
\<close>

theorem orient_reverse_negates_direction:
  "direction_vector cursor loc False = vsub cursor loc
   \<and> direction_vector cursor loc True = vsub loc cursor
   \<and> direction_vector cursor loc True = vneg (direction_vector cursor loc False)
   \<and> object_rotation tq cursor ax False obj =
       (case ax of
          AX \<Rightarrow> tq (normalize (vsub cursor (location obj))) AX AZ
        | AY \<Rightarrow> tq (normalize (vsub cursor (location obj))) AY AZ
        | AZ \<Rightarrow> tq (normalize (vsub cursor (location obj))) AZ AY)
   \<and> object_rotation tq cursor ax True obj =
       (case ax of
          AX \<Rightarrow> tq (vneg (normalize (vsub cursor (location obj)))) AX AZ
        | AY \<Rightarrow> tq (vneg (normalize (vsub cursor (location obj)))) AY AZ
        | AZ \<Rightarrow> tq (vneg (normalize (vsub cursor (location obj)))) AZ AY)"
proof -
  have n: "normalize (vsub (location obj) cursor) = vneg (normalize (vsub cursor (location obj)))"
    using normalize_vneg [of "vsub cursor (location obj)"]
    by (simp add: vsub_swap [of "location obj" cursor])
  have d: "direction_vector cursor loc True = vneg (direction_vector cursor loc False)"
    by (simp add: direction_vector_def vsub_swap [of loc cursor])
  show ?thesis
    using d by (simp add: object_rotation_def direction_vector_def Let_def n split: axis.split)
qed

lemma look_at_objects_all:
  assumes "\<forall>p\<in>set objs. object_rotation tq cursor ax reverse p \<noteq> None"
  shows "look_at_objects tq te cursor ax reverse objs
         = (FINISHED, map (rotated tq te cursor ax reverse) objs, [])"
  using assms by (induction objs) (auto simp: rotated_def)

lemma look_at_all_converted:
  assumes "\<forall>p\<in>set (selected_objects ctx).
             object_rotation tq (cursor_location ctx) ax reverse p \<noteq> None"
  shows "look_at_execute tq te ax reverse ctx =
     (FINISHED,
      ctx\<lparr>selected_objects :=
            map (rotated tq te (cursor_location ctx) ax reverse) (selected_objects ctx)\<rparr>,
      [])"
  using assms by (simp add: look_at_execute_def Let_def look_at_objects_all)

lemma look_at_objects_abort:
  assumes "\<forall>p\<in>set pre. object_rotation tq cursor ax reverse p \<noteq> None"
    and "object_rotation tq cursor ax reverse obj = None"
  shows "look_at_objects tq te cursor ax reverse (pre @ obj # post)
         = (CANCELLED, map (rotated tq te cursor ax reverse) pre @ obj # post, [look_at_error])"
  using assms by (induction pre) (auto simp: rotated_def look_at_error_def)


text \<open>
  C6, as amended. The first selected object whose conversion raises ValueError is left
  unrotated and reported as an error, and it ends the batch: the operation returns
  CANCELLED at once, the objects before it in the selection keep the rotations already
  applied, and the objects after it are not rotated.
\<close>

theorem look_at_failure_cancels_batch:
  assumes "selected_objects ctx = pre @ obj # post"
    and "\<forall>p\<in>set pre. object_rotation tq (cursor_location ctx) ax reverse p \<noteq> None"
    and "object_rotation tq (cursor_location ctx) ax reverse obj = None"
  shows "look_at_execute tq te ax reverse ctx =
     (CANCELLED,
      ctx\<lparr>selected_objects :=
            map (rotated tq te (cursor_location ctx) ax reverse) pre @ obj # post\<rparr>,
      [look_at_error])"
  using assms by (simp add: look_at_execute_def Let_def look_at_objects_abort)

lemma track_quat_unit [simp]:
  "object_rotation track_quat (Vector 0 0 0) AZ False \<lparr>location = Vector 1 0 0, rotation_euler = r\<rparr>
   = Some (Vector (- 1) 0 0, AZ, AY)"
  by (simp add: object_rotation_def direction_vector_def normalize_def vsub_def smul_def
      length_squared_def vlength_def dot_def track_quat_def Let_def)

lemma track_quat_at_cursor [simp]:
  "object_rotation track_quat c ax reverse \<lparr>location = c, rotation_euler = r\<rparr> = None"
  by (simp add: object_rotation_def direction_vector_def normalize_def vsub_def
      length_squared_def dot_def track_quat_def Let_def)

theorem look_at_failure_cancels_batch_witness:
  "look_at_execute track_quat to_euler AZ False
     \<lparr>object = None,
      selected_objects =
        [\<lparr>location = Vector 1 0 0, rotation_euler = None\<rparr>,
         \<lparr>location = Vector 0 0 0, rotation_euler = None\<rparr>,
         \<lparr>location = Vector 0 1 0, rotation_euler = None\<rparr>],
      selected_pose_bones = [], selected_bones = [],
      cursor_location = Vector 0 0 0\<rparr>
   = (CANCELLED,
      \<lparr>object = None,
       selected_objects =
        [\<lparr>location = Vector 1 0 0, rotation_euler = Some (Vector (- 1) 0 0, AZ, AY)\<rparr>,
         \<lparr>location = Vector 0 0 0, rotation_euler = None\<rparr>,
         \<lparr>location = Vector 0 1 0, rotation_euler = None\<rparr>],
       selected_pose_bones = [], selected_bones = [],
       cursor_location = Vector 0 0 0\<rparr>,
      [look_at_error])"
  using look_at_failure_cancels_batch
    [of "\<lparr>object = None,
      selected_objects =
        [\<lparr>location = Vector 1 0 0, rotation_euler = None\<rparr>,
         \<lparr>location = Vector 0 0 0, rotation_euler = None\<rparr>,
         \<lparr>location = Vector 0 1 0, rotation_euler = None\<rparr>],
      selected_pose_bones = [], selected_bones = [],
      cursor_location = Vector 0 0 0\<rparr>"
      "[\<lparr>location = Vector 1 0 0, rotation_euler = None\<rparr>]"
      "\<lparr>location = Vector 0 0 0, rotation_euler = None\<rparr>"
      "[\<lparr>location = Vector 0 1 0, rotation_euler = None\<rparr>]"
      track_quat AZ False to_euler]
  by (simp add: rotated_def to_euler_def)

text \<open>
  C6, as stated, fails: with the first of two selected objects at the cursor, the
  operation returns CANCELLED and the second object, which is not at the cursor, has not
  been rotated.
\<close>

theorem look_at_skip_counterexample:
  "look_at_execute track_quat to_euler AZ False
     \<lparr>object = None,
      selected_objects =
        [\<lparr>location = Vector 0 0 0, rotation_euler = None\<rparr>,
         \<lparr>location = Vector 1 0 0, rotation_euler = None\<rparr>],
      selected_pose_bones = [], selected_bones = [],
      cursor_location = Vector 0 0 0\<rparr>
   = (CANCELLED,
      \<lparr>object = None,
       selected_objects =
        [\<lparr>location = Vector 0 0 0, rotation_euler = None\<rparr>,
         \<lparr>location = Vector 1 0 0, rotation_euler = None\<rparr>],
       selected_pose_bones = [], selected_bones = [],
       cursor_location = Vector 0 0 0\<rparr>,
      [look_at_error])"
  by (simp add: look_at_execute_def look_at_error_def Let_def)






end
